theory Spec2Isabelle
  imports Main "HOL-Library.Sublist"
begin

section \<open>Data model\<close>

text \<open>
  A Go string is a sequence of bytes, here \<^typ>\<open>string\<close> (a list of 8-bit characters);
  text outside ASCII appears as its UTF-8 bytes. The struct \<open>ParsedAddress\<close> and the
  struct \<open>Config\<close> are records with the fields of the source, in its order.
\<close>

record ParsedAddress =
  Street :: string
  City :: string
  Zip :: string

record Config =
  IgnoreGreek :: bool

text \<open>The four error values of \<open>error.go\<close>.\<close>

datatype error =
    ErrorInvalidOption
  | ErrorMissingAddress
  | ErrorMissingCountryCode
  | ErrorUnsupportedCountryCode

text \<open>
  A call either returns its pair (result, error), where the error may be \<open>nil\<close>, or the Go
  runtime stops it with a bounds error: an index out of range (\<open>xs[i]\<close>) or slice bounds out
  of range (\<open>xs[lo:hi]\<close>).
\<close>

datatype panic = IndexOutOfRange | SliceBoundsOutOfRange

datatype 'a outcome = Returns 'a | Panics panic

definition andThen :: "'a outcome \<Rightarrow> ('a \<Rightarrow> 'b outcome) \<Rightarrow> 'b outcome" where
  "andThen r f = (case r of Panics p \<Rightarrow> Panics p | Returns x \<Rightarrow> f x)"

text \<open>\<open>ParsedAddress{}\<close>, the zero value of the struct.\<close>

definition zeroAddress :: ParsedAddress where
  "zeroAddress = \<lparr>Street = [], City = [], Zip = []\<rparr>"

text \<open>The country code constants and the list \<open>SupportedCountryCodes\<close>.\<close>

definition cz :: string where "cz = ''CZ''"
definition sk :: string where "sk = ''SK''"
definition nl :: string where "nl = ''NL''"
definition be :: string where "be = ''BE''"
definition fr :: string where "fr = ''FR''"
definition pt :: string where "pt = ''PT''"
definition it :: string where "it = ''IT''"
definition fi :: string where "fi = ''FI''"
definition ro :: string where "ro = ''RO''"
definition si :: string where "si = ''SI''"
definition at :: string where "at = ''AT''"
definition pl :: string where "pl = ''PL''"
definition hr :: string where "hr = ''HR''"
definition el :: string where "el = ''EL''"
definition dk :: string where "dk = ''DK''"
definition ee :: string where "ee = ''EE''"

definition SupportedCountryCodes :: "string list" where
  "SupportedCountryCodes = [cz, sk, nl, be, fr, pt, it, fi, ro, si, at, pl, hr, el, dk, ee]"

lemmas country_defs =
  cz_def sk_def nl_def be_def fr_def pt_def it_def fi_def ro_def si_def at_def pl_def hr_def
  el_def dk_def ee_def

section \<open>The library functions the parser calls\<close>

subsection \<open>Indexing and slicing\<close>

text \<open>
  \<open>xs[i]\<close> and \<open>xs[lo:hi]\<close> on a slice whose capacity is its length (what \<open>strings.Split\<close>
  returns). The indices are Go \<open>int\<close>s, so \<open>len(xs)-2\<close> may be negative.
\<close>

definition index :: "'a list \<Rightarrow> int \<Rightarrow> 'a outcome" where
  "index xs i =
     (if 0 \<le> i \<and> i < int (length xs) then Returns (xs ! nat i) else Panics IndexOutOfRange)"

definition slice :: "'a list \<Rightarrow> int \<Rightarrow> int \<Rightarrow> 'a list outcome" where
  "slice xs lo hi =
     (if 0 \<le> lo \<and> lo \<le> hi \<and> hi \<le> int (length xs)
      then Returns (take (nat (hi - lo)) (drop (nat lo) xs))
      else Panics SliceBoundsOutOfRange)"

definition len :: "'a list \<Rightarrow> int" where
  "len xs = int (length xs)"

subsection \<open>\<open>slices.Contains\<close>, \<open>strings.Count\<close>, \<open>strings.Join\<close>\<close>

definition Contains :: "'a list \<Rightarrow> 'a \<Rightarrow> bool" where
  "Contains xs x = (x \<in> set xs)"

text \<open>
  \<open>strings.Count(s, substr)\<close> for a one-byte \<open>substr\<close> (the source counts \<open>"\n"\<close>): the
  number of bytes of \<open>s\<close> equal to it.
\<close>

definition Count :: "string \<Rightarrow> char \<Rightarrow> nat" where
  "Count s c = length (filter (\<lambda>x. x = c) s)"

text \<open>\<open>strings.Join(elems, "")\<close>: the source only joins with the empty separator.\<close>

definition Join :: "string list \<Rightarrow> string" where
  "Join elems = concat elems"

subsection \<open>\<open>strings.Split\<close> and \<open>strings.Replace\<close>\<close>

text \<open>\<open>strings.IndexByte\<close>: the position of the first byte equal to \<open>c\<close>, if any.\<close>

fun IndexByte :: "string \<Rightarrow> char \<Rightarrow> nat option" where
  "IndexByte [] c = None"
| "IndexByte (x # xs) c = (if x = c then Some 0 else map_option Suc (IndexByte xs c))"

text \<open>\<open>strings.Index\<close>: the position of the first occurrence of \<open>sub\<close>, if any.\<close>

fun Index :: "string \<Rightarrow> string \<Rightarrow> nat option" where
  "Index [] sub = (if sub = [] then Some 0 else None)"
| "Index (x # xs) sub =
     (if prefix sub (x # xs) then Some 0 else map_option Suc (Index xs sub))"

lemma IndexByte_less: "IndexByte s c = Some m \<Longrightarrow> m < length s"
  by (induction s arbitrary: m) (auto split: if_splits)

text \<open>
  \<open>strings.Split(s, sep)\<close> for a one-byte separator (the source splits on \<open>"\n"\<close>, \<open>" "\<close>
  and \<open>","\<close>): the loop of the library cuts at the first separator and goes on with the
  rest; the last piece is what remains.
\<close>

function Split :: "string \<Rightarrow> char \<Rightarrow> string list" where
  "Split s sep =
     (case IndexByte s sep of
        None \<Rightarrow> [s]
      | Some m \<Rightarrow> take m s # Split (drop (m + 1) s) sep)"
  by pat_completeness auto
termination
  by (relation "measure (\<lambda>(s, sep). length s)") (auto dest: IndexByte_less)

declare Split.simps [simp del]

text \<open>
  \<open>strings.Replace(s, old, new, n)\<close> for \<open>n \<ge> 0\<close> and a non-empty \<open>old\<close>: the first \<open>n\<close>
  occurrences of \<open>old\<close>, found from left to right without overlap, are replaced.
\<close>

fun Replace :: "string \<Rightarrow> string \<Rightarrow> string \<Rightarrow> nat \<Rightarrow> string" where
  "Replace s old new 0 = s"
| "Replace s old new (Suc n) =
     (case Index s old of
        None \<Rightarrow> s
      | Some j \<Rightarrow> take j s @ new @ Replace (drop (j + length old) s) old new n)"

subsection \<open>\<open>strings.TrimSpace\<close>\<close>

text \<open>
  \<open>strings.TrimSpace\<close> removes the leading and the trailing white space of a string, white
  space being the runes \<open>unicode.IsSpace\<close> accepts. It decodes UTF-8 forwards from the
  start and backwards from the end; a rune is decoded as white space exactly where the
  bytes are the UTF-8 encoding of one of: U+0009 to U+000D, U+0020, U+0085, U+00A0,
  U+1680, U+2000 to U+200A, U+2028, U+2029, U+202F, U+205F, U+3000. Any other byte
  sequence, valid UTF-8 or not, stops the trimming.
\<close>

definition spaceRunes :: "string list" where
  "spaceRunes =
     [[CHR 0x09], [CHR 0x0A], [CHR 0x0B], [CHR 0x0C], [CHR 0x0D], [CHR 0x20],
      [CHR 0xC2, CHR 0x85], [CHR 0xC2, CHR 0xA0],
      [CHR 0xE1, CHR 0x9A, CHR 0x80],
      [CHR 0xE2, CHR 0x80, CHR 0x80], [CHR 0xE2, CHR 0x80, CHR 0x81],
      [CHR 0xE2, CHR 0x80, CHR 0x82], [CHR 0xE2, CHR 0x80, CHR 0x83],
      [CHR 0xE2, CHR 0x80, CHR 0x84], [CHR 0xE2, CHR 0x80, CHR 0x85],
      [CHR 0xE2, CHR 0x80, CHR 0x86], [CHR 0xE2, CHR 0x80, CHR 0x87],
      [CHR 0xE2, CHR 0x80, CHR 0x88], [CHR 0xE2, CHR 0x80, CHR 0x89],
      [CHR 0xE2, CHR 0x80, CHR 0x8A],
      [CHR 0xE2, CHR 0x80, CHR 0xA8], [CHR 0xE2, CHR 0x80, CHR 0xA9],
      [CHR 0xE2, CHR 0x80, CHR 0xAF],
      [CHR 0xE2, CHR 0x81, CHR 0x9F],
      [CHR 0xE3, CHR 0x80, CHR 0x80]]"

definition leadingSpace :: "string \<Rightarrow> string option" where
  "leadingSpace s = find (\<lambda>e. prefix e s) spaceRunes"

definition trailingSpace :: "string \<Rightarrow> string option" where
  "trailingSpace s = find (\<lambda>e. suffix e s) spaceRunes"

lemma spaceRunes_nonempty: "e \<in> set spaceRunes \<Longrightarrow> e \<noteq> []"
  by (auto simp: spaceRunes_def)

lemma leadingSpace_Some: "leadingSpace s = Some e \<Longrightarrow> e \<noteq> [] \<and> prefix e s"
  by (auto simp: leadingSpace_def find_Some_iff spaceRunes_nonempty)

lemma trailingSpace_Some: "trailingSpace s = Some e \<Longrightarrow> e \<noteq> [] \<and> suffix e s"
  by (auto simp: trailingSpace_def find_Some_iff spaceRunes_nonempty)

function TrimLeftSpace :: "string \<Rightarrow> string" where
  "TrimLeftSpace s =
     (case leadingSpace s of
        None \<Rightarrow> s
      | Some e \<Rightarrow> TrimLeftSpace (drop (length e) s))"
  by pat_completeness auto
termination
proof (relation "measure length")
  fix s e
  assume "leadingSpace s = Some e"
  then have "e \<noteq> []" and "prefix e s"
    by (simp_all add: leadingSpace_Some)
  then have "s \<noteq> []" by auto
  with \<open>e \<noteq> []\<close> show "(drop (length e) s, s) \<in> measure length" by simp
qed simp

function TrimRightSpace :: "string \<Rightarrow> string" where
  "TrimRightSpace s =
     (case trailingSpace s of
        None \<Rightarrow> s
      | Some e \<Rightarrow> TrimRightSpace (take (length s - length e) s))"
  by pat_completeness auto
termination
proof (relation "measure length")
  fix s e
  assume "trailingSpace s = Some e"
  then have "e \<noteq> []" and "suffix e s"
    by (simp_all add: trailingSpace_Some)
  then have "s \<noteq> []" by auto
  with \<open>e \<noteq> []\<close> show "(take (length s - length e) s, s) \<in> measure length" by simp
qed simp

declare TrimLeftSpace.simps [simp del] TrimRightSpace.simps [simp del]

definition TrimSpace :: "string \<Rightarrow> string" where
  "TrimSpace s = TrimRightSpace (TrimLeftSpace s)"

section \<open>The parser\<close>

text \<open>The separators and literals of the source, as bytes.\<close>

definition LF :: char where "LF = CHR 0x0A"

definition SP :: char where "SP = CHR 0x20"

definition comma :: char where "comma = CHR 0x2C"

definition Slovensko :: string where
  "Slovensko = ''Slovensko''"

text \<open>The Slovak for "city district", followed by a space, and its abbreviation, in UTF-8.\<close>

definition mestskaCast :: string where
  "mestskaCast = ''mestsk'' @ [CHR 0xC3, CHR 0xA1] @ '' '' @ [CHR 0xC4, CHR 0x8D] @ ''as''
     @ [CHR 0xC5, CHR 0xA5] @ '' ''"

definition mc :: string where
  "mc = ''m. '' @ [CHR 0xC4, CHR 0x8D] @ ''. ''"

type_synonym result = "(ParsedAddress \<times> error option) outcome"

text \<open>
  Lines 101 to 109, the rule of NL, BE, FR, FI, AT, PL and DK for one newline. The fields of
  the struct literal are evaluated in the order they are written: Street, Zip, City.
\<close>

definition parseTwoLines :: "string \<Rightarrow> result" where
  "parseTwoLines address =
     (let parts = Split address LF in
      andThen (index parts 1) (\<lambda>line.
      let locationParts = Split line SP in
      andThen (index parts 0) (\<lambda>street.
      andThen (index locationParts 0) (\<lambda>zip.
      andThen (index locationParts 1) (\<lambda>city.
      Returns (\<lparr>Street = TrimSpace street, City = TrimSpace city, Zip = TrimSpace zip\<rparr>,
               None))))))"

text \<open>Lines 110 to 122, the rule of SI and HR for no newline.\<close>

definition parseCommas :: "string \<Rightarrow> result" where
  "parseCommas address =
     (let parts = Split address comma in
      andThen (index parts 0) (\<lambda>part0.
      let street = TrimSpace part0 in
      andThen (if len parts = 3
               then andThen (index parts 1) (\<lambda>part1. Returns (street @ '', '' @ TrimSpace part1))
               else Returns street) (\<lambda>street.
      andThen (index parts (len parts - 1)) (\<lambda>lastPart.
      let locationParts = Split lastPart SP in
      andThen (index locationParts 0) (\<lambda>zip.
      andThen (index locationParts 1) (\<lambda>city.
      Returns (\<lparr>Street = street, City = city, Zip = zip\<rparr>, None)))))))"

text \<open>Lines 139 to 145 and 154 to 160: the end of both rules of SK.\<close>

definition finishSK :: "string \<Rightarrow> string \<Rightarrow> string \<Rightarrow> result" where
  "finishSK street city0 zipCode =
     (let city = Replace city0 mestskaCast [] 1;
          city = Replace city mc [] 1
      in Returns (\<lparr>Street = TrimSpace street, City = TrimSpace city, Zip = TrimSpace zipCode\<rparr>,
                  None))"

text \<open>
  Lines 124 to 146, SK with one newline. The variables \<open>street\<close>, \<open>zip\<close> and \<open>city\<close> are
  passed from one \<open>if\<close> to the next as a triple; \<open>city\<close> and \<open>zip\<close> start empty.
\<close>

definition parseSK1 :: "string \<Rightarrow> result" where
  "parseSK1 address =
     (let parts = Split address LF in
      andThen (index parts 0) (\<lambda>part0.
      let street = TrimSpace part0 in
      andThen (index parts 1) (\<lambda>part1.
      andThen (if part1 \<noteq> Slovensko
               then andThen (index parts (len parts - 1)) (\<lambda>lastPart.
                    let locationParts = Split lastPart SP in
                    andThen (index locationParts 0) (\<lambda>zip.
                    andThen (index locationParts 1) (\<lambda>city.
                    Returns (street, zip, city))))
               else Returns (street, [], [])) (\<lambda>(street, zip, city).
      andThen (index parts 1) (\<lambda>part1.
      andThen (if part1 = Slovensko
               then andThen (index parts 0) (\<lambda>part0.
                    let locationParts = Split part0 SP in
                    andThen (index locationParts 0) (\<lambda>zip.
                    andThen (index locationParts 1) (\<lambda>city.
                    Returns ([], zip, city))))
               else Returns (street, zip, city)) (\<lambda>(street, zip, city).
      finishSK street city zip))))))"

text \<open>Lines 147 to 161, SK with two newlines.\<close>

definition parseSK2 :: "string \<Rightarrow> result" where
  "parseSK2 address =
     (let parts = Split address LF in
      andThen (index parts 0) (\<lambda>part0.
      let street = TrimSpace part0 in
      andThen (index parts (len parts - 1)) (\<lambda>lastPart.
      let locationParts = Split lastPart SP in
      andThen (index locationParts 0) (\<lambda>zip.
      andThen (index locationParts 1) (\<lambda>city.
      finishSK street city zip)))))"

text \<open>
  Lines 164 to 173, CZ with one newline. The struct literal evaluates City before Zip.
\<close>

definition parseCZ1 :: "string \<Rightarrow> result" where
  "parseCZ1 address =
     (let parts = Split address LF in
      andThen (index parts 0) (\<lambda>part0.
      let street = TrimSpace part0 in
      andThen (index parts (len parts - 1)) (\<lambda>lastPart.
      let lastParts = Split (TrimSpace lastPart) SP in
      andThen (slice lastParts (len lastParts - 2) (len lastParts - 1)) (\<lambda>cityParts.
      andThen (slice lastParts 0 (len lastParts - 2)) (\<lambda>zipParts.
      Returns (\<lparr>Street = street, City = TrimSpace (Join cityParts),
                Zip = TrimSpace (Join zipParts)\<rparr>, None))))))"

text \<open>Lines 174 to 182, CZ with two newlines.\<close>

definition parseCZ2 :: "string \<Rightarrow> result" where
  "parseCZ2 address =
     (let parts = Split address LF in
      andThen (index parts (len parts - 1)) (\<lambda>lastPart.
      let lastParts = Split (TrimSpace lastPart) SP in
      andThen (index parts 0) (\<lambda>part0.
      andThen (index parts 1) (\<lambda>part1.
      andThen (slice lastParts 0 (len lastParts - 2)) (\<lambda>zipParts.
      Returns (\<lparr>Street = TrimSpace part0, City = TrimSpace part1,
                Zip = TrimSpace (Join zipParts)\<rparr>, None))))))"

text \<open>
  Lines 95 to 185: what \<open>ParseAddress\<close> does once both length checks have passed, on the
  country code and the address as given. Both are trimmed first. An address of SK that has
  neither one nor two newlines leaves the block of SK and reaches the last line.
\<close>

definition dispatch :: "string \<Rightarrow> string \<Rightarrow> result" where
  "dispatch countryCode0 address0 =
     (let countryCode = TrimSpace countryCode0;
          address = TrimSpace address0;
          newlinesCount = Count address LF
      in if \<not> Contains SupportedCountryCodes countryCode
         then Returns (zeroAddress, Some ErrorUnsupportedCountryCode)
         else if newlinesCount = 1 \<and> Contains [nl, be, fr, fi, at, pl, dk] countryCode
         then parseTwoLines address
         else if newlinesCount = 0 \<and> Contains [si, hr] countryCode
         then parseCommas address
         else if countryCode = sk \<and> newlinesCount = 1 then parseSK1 address
         else if countryCode = sk \<and> newlinesCount = 2 then parseSK2 address
         else if countryCode = cz
         then (if newlinesCount = 1 then parseCZ1 address
               else if newlinesCount = 2 then parseCZ2 address
               else Returns (zeroAddress, Some ErrorInvalidOption))
         else Returns (zeroAddress, None))"

text \<open>
  \<open>ParseAddress\<close>, lines 88 to 186. The variadic parameter \<open>config\<close> is the list of the
  \<open>Config\<close> values the caller passes, empty when the argument is left out. The body never
  reads it, and never reads the table \<open>greekExpressions\<close> of lines 42 to 85 either: no
  function of the package refers to that table.
\<close>

definition ParseAddress :: "string \<Rightarrow> string \<Rightarrow> Config list \<Rightarrow> result" where
  "ParseAddress countryCode address config =
     (if length countryCode = 0 then Returns (zeroAddress, Some ErrorMissingCountryCode)
      else if length address = 0 then Returns (zeroAddress, Some ErrorMissingAddress)
      else dispatch countryCode address)"



section \<open>Properties of the library functions\<close>

text \<open>Trimming leaves nothing to trim: \<open>TrimSpace\<close> is idempotent.\<close>

lemma leadingSpace_Nil: "leadingSpace [] = None"
  by (simp add: leadingSpace_def spaceRunes_def)

lemma trailingSpace_Nil: "trailingSpace [] = None"
  by (simp add: trailingSpace_def spaceRunes_def)

lemma TrimLeftSpace_fixed: "leadingSpace s = None \<Longrightarrow> TrimLeftSpace s = s"
  by (subst TrimLeftSpace.simps) simp

lemma TrimRightSpace_fixed: "trailingSpace s = None \<Longrightarrow> TrimRightSpace s = s"
  by (subst TrimRightSpace.simps) simp

lemma leadingSpace_TrimLeftSpace: "leadingSpace (TrimLeftSpace s) = None"
proof (induction s rule: TrimLeftSpace.induct)
  case (1 s)
  show ?case
  proof (cases "leadingSpace s")
    case None
    then show ?thesis by (simp add: TrimLeftSpace_fixed)
  next
    case (Some e)
    with 1 show ?thesis by (subst TrimLeftSpace.simps) simp
  qed
qed

lemma trailingSpace_TrimRightSpace: "trailingSpace (TrimRightSpace s) = None"
proof (induction s rule: TrimRightSpace.induct)
  case (1 s)
  show ?case
  proof (cases "trailingSpace s")
    case None
    then show ?thesis by (simp add: TrimRightSpace_fixed)
  next
    case (Some e)
    with 1 show ?thesis by (subst TrimRightSpace.simps) simp
  qed
qed

lemma leadingSpace_take: "leadingSpace s = None \<Longrightarrow> leadingSpace (take n s) = None"
  unfolding leadingSpace_def find_None_iff
  by (meson prefix_order.trans take_is_prefix)

lemma leadingSpace_TrimRightSpace:
  "leadingSpace s = None \<Longrightarrow> leadingSpace (TrimRightSpace s) = None"
proof (induction s rule: TrimRightSpace.induct)
  case (1 s)
  show ?case
  proof (cases "trailingSpace s")
    case None
    with 1 show ?thesis by (simp add: TrimRightSpace_fixed)
  next
    case (Some e)
    with 1 show ?thesis by (subst TrimRightSpace.simps) (simp add: leadingSpace_take)
  qed
qed

lemma TrimSpace_Nil: "TrimSpace [] = []"
  by (simp add: TrimSpace_def TrimLeftSpace_fixed TrimRightSpace_fixed leadingSpace_Nil
      trailingSpace_Nil)

lemma TrimSpace_idem: "TrimSpace (TrimSpace s) = TrimSpace s"
  by (simp add: TrimSpace_def TrimLeftSpace_fixed TrimRightSpace_fixed
      leadingSpace_TrimLeftSpace leadingSpace_TrimRightSpace trailingSpace_TrimRightSpace)

text \<open>
  Splitting cuts at every separator: a string with \<open>n\<close> separators gives \<open>n + 1\<close> pieces,
  so \<open>strings.Split\<close> never returns an empty slice.
\<close>

lemma IndexByte_None: "sep \<notin> set xs \<Longrightarrow> IndexByte xs sep = None"
  by (induction xs) auto

lemma IndexByte_first: "sep \<notin> set xs \<Longrightarrow> IndexByte (xs @ sep # ys) sep = Some (length xs)"
  by (induction xs) auto

lemma Split_last: "sep \<notin> set xs \<Longrightarrow> Split xs sep = [xs]"
  by (subst Split.simps) (simp add: IndexByte_None)

lemma Split_first: "sep \<notin> set xs \<Longrightarrow> Split (xs @ sep # ys) sep = xs # Split ys sep"
  by (subst Split.simps) (simp add: IndexByte_first)

lemma Count_append: "Count (xs @ ys) c = Count xs c + Count ys c"
  by (simp add: Count_def)

lemma Count_Cons: "Count (x # xs) c = (if x = c then Suc (Count xs c) else Count xs c)"
  by (simp add: Count_def)

lemma Count_none: "c \<notin> set xs \<Longrightarrow> Count xs c = 0"
  by (auto simp: Count_def filter_empty_conv)

lemma length_Split: "length (Split s sep) = Count s sep + 1"
proof (induction s sep rule: Split.induct)
  case (1 s sep)
  show ?case
  proof (cases "IndexByte s sep")
    case None
    then have "sep \<notin> set s"
      by (induction s) (auto split: if_splits)
    then show ?thesis by (simp add: Split_last Count_none)
  next
    case (Some m)
    then have "m < length s" by (rule IndexByte_less)
    have "s ! m = sep \<and> sep \<notin> set (take m s)" using Some
    proof (induction s arbitrary: m)
      case Nil then show ?case by simp
    next
      case (Cons a s)
      then show ?case by (cases m) (auto split: if_splits)
    qed
    then have "Count s sep = Suc (Count (drop (m + 1) s) sep)"
      using \<open>m < length s\<close>
      by (metis Count_Cons Count_append Count_none Cons_nth_drop_Suc Suc_eq_plus1 add_0
          append_take_drop_id)
    with 1 Some show ?thesis by (subst Split.simps) simp
  qed
qed


section \<open>Properties of the dispatch\<close>

text \<open>A parsing rule that returns gives a result and no error.\<close>

lemma andThen_Returns: "andThen r f = Returns y \<Longrightarrow> \<exists>x. r = Returns x \<and> f x = Returns y"
  by (cases r) (simp_all add: andThen_def)

lemma parseTwoLines_no_error: "parseTwoLines a = Returns (r, e) \<Longrightarrow> e = None"
  by (auto simp: parseTwoLines_def Let_def dest!: andThen_Returns)

lemma parseCommas_no_error: "parseCommas a = Returns (r, e) \<Longrightarrow> e = None"
  by (auto simp: parseCommas_def Let_def dest!: andThen_Returns)

lemma finishSK_no_error: "finishSK s c z = Returns (r, e) \<Longrightarrow> e = None"
  by (simp add: finishSK_def Let_def)

lemma parseSK1_no_error: "parseSK1 a = Returns (r, e) \<Longrightarrow> e = None"
  by (auto simp: parseSK1_def Let_def dest!: andThen_Returns finishSK_no_error)

lemma parseSK2_no_error: "parseSK2 a = Returns (r, e) \<Longrightarrow> e = None"
  by (auto simp: parseSK2_def Let_def dest!: andThen_Returns finishSK_no_error)

lemma parseCZ1_no_error: "parseCZ1 a = Returns (r, e) \<Longrightarrow> e = None"
  by (auto simp: parseCZ1_def Let_def dest!: andThen_Returns)

lemma parseCZ2_no_error: "parseCZ2 a = Returns (r, e) \<Longrightarrow> e = None"
  by (auto simp: parseCZ2_def Let_def dest!: andThen_Returns)

lemmas parse_no_error =
  parseTwoLines_no_error parseCommas_no_error parseSK1_no_error parseSK2_no_error
  parseCZ1_no_error parseCZ2_no_error

text \<open>
  After the length checks only two errors remain, and \<open>ErrorInvalidOption\<close> is raised in
  the block of CZ only.
\<close>

lemma dispatch_errors:
  assumes "dispatch countryCode address = Returns (r, Some e)"
  shows "e = ErrorUnsupportedCountryCode \<or> e = ErrorInvalidOption \<and> TrimSpace countryCode = cz"
  using assms
  by (auto simp: dispatch_def Let_def split: if_splits dest: parse_no_error)

lemma dispatch_TrimSpace: "dispatch countryCode (TrimSpace address) = dispatch countryCode address"
  by (simp add: dispatch_def TrimSpace_idem)

lemma supported_sk: "Contains SupportedCountryCodes sk"
  and supported_cz: "Contains SupportedCountryCodes cz"
  and supported_el: "Contains SupportedCountryCodes el"
  by (simp_all add: Contains_def SupportedCountryCodes_def)

lemma dispatch_sk:
  "TrimSpace countryCode = sk \<Longrightarrow>
   dispatch countryCode address =
     (if Count (TrimSpace address) LF = 1 then parseSK1 (TrimSpace address)
      else if Count (TrimSpace address) LF = 2 then parseSK2 (TrimSpace address)
      else Returns (zeroAddress, None))"
  by (simp add: dispatch_def Contains_def SupportedCountryCodes_def country_defs)

lemma dispatch_cz:
  "TrimSpace countryCode = cz \<Longrightarrow>
   dispatch countryCode address =
     (if Count (TrimSpace address) LF = 1 then parseCZ1 (TrimSpace address)
      else if Count (TrimSpace address) LF = 2 then parseCZ2 (TrimSpace address)
      else Returns (zeroAddress, Some ErrorInvalidOption))"
  by (simp add: dispatch_def Contains_def SupportedCountryCodes_def country_defs)

lemma dispatch_el:
  "TrimSpace countryCode = el \<Longrightarrow> dispatch countryCode address = Returns (zeroAddress, None)"
  by (simp add: dispatch_def Contains_def SupportedCountryCodes_def country_defs)

lemma dispatch_blank:
  "TrimSpace countryCode = [] \<Longrightarrow>
   dispatch countryCode address = Returns (zeroAddress, Some ErrorUnsupportedCountryCode)"
  by (simp add: dispatch_def Contains_def SupportedCountryCodes_def country_defs)

lemma TrimSpace_codes:
  "TrimSpace sk = sk" "TrimSpace cz = cz" "TrimSpace el = el" "TrimSpace nl = nl"
  by code_simp+


section \<open>The claims\<close>

text \<open>
  Claim C1, as the code has it. The claim says that for the country code EL the City of the
  result is the Greek city of the address, transliterated when no configuration is given and
  left in Greek script when \<open>IgnoreGreek\<close> is true. The code has no rule for EL and applies
  no transliteration: for EL and every non-empty address, with any configuration or none,
  \<open>ParseAddress\<close> returns the empty result (Street, City and Zip all empty) and no error.
\<close>
theorem C1_el_returns_nothing:
  "address \<noteq> [] \<Longrightarrow> ParseAddress el address config = Returns (zeroAddress, None)"
  by (simp add: ParseAddress_def dispatch_el TrimSpace_codes) (simp add: el_def)

text \<open>
  C1 at the address "10563" followed by a space and the name of Athens in Greek script (five
  letters, ten bytes of UTF-8).
\<close>
theorem C1_el_returns_nothing_witness:
  "''10563 '' @ [CHR 0xCE, CHR 0x91, CHR 0xCE, CHR 0xB8, CHR 0xCE, CHR 0xAE, CHR 0xCE, CHR 0xBD,
      CHR 0xCE, CHR 0xB1] \<noteq> [] \<and>
   ParseAddress el (''10563 '' @ [CHR 0xCE, CHR 0x91, CHR 0xCE, CHR 0xB8, CHR 0xCE, CHR 0xAE,
      CHR 0xCE, CHR 0xBD, CHR 0xCE, CHR 0xB1]) [\<lparr>IgnoreGreek = False\<rparr>]
     = Returns (zeroAddress, None)"
  using C1_el_returns_nothing [of "''10563 '' @ [CHR 0xCE, CHR 0x91, CHR 0xCE, CHR 0xB8, CHR 0xCE,
      CHR 0xAE, CHR 0xCE, CHR 0xBD, CHR 0xCE, CHR 0xB1]" "[\<lparr>IgnoreGreek = False\<rparr>]"]
  by simp

text \<open>
  C1 as stated fails at that address: without configuration and with \<open>IgnoreGreek = true\<close>
  alike the City is empty, neither a transliteration nor the Greek text.
\<close>
theorem C1_greek_city_lost:
  "ParseAddress el (''10563 '' @ [CHR 0xCE, CHR 0x91, CHR 0xCE, CHR 0xB8, CHR 0xCE, CHR 0xAE,
      CHR 0xCE, CHR 0xBD, CHR 0xCE, CHR 0xB1]) []
     = Returns (\<lparr>Street = [], City = [], Zip = []\<rparr>, None) \<and>
   ParseAddress el (''10563 '' @ [CHR 0xCE, CHR 0x91, CHR 0xCE, CHR 0xB8, CHR 0xCE, CHR 0xAE,
      CHR 0xCE, CHR 0xBD, CHR 0xCE, CHR 0xB1]) [\<lparr>IgnoreGreek = True\<rparr>]
     = Returns (\<lparr>Street = [], City = [], Zip = []\<rparr>, None)"
  by code_simp

text \<open>
  Claim C2 says that for SI the address "Neka ulica 5, 1000 Ljubljana" gives Street
  "Neka ulica 5", Zip "1000" and City "Ljubljana". The code splits the last comma part
  " 1000 Ljubljana" on spaces without trimming it first, so the first token is empty: what
  it returns is Zip "" and City "1000".
\<close>
theorem C2_si_example:
  "ParseAddress si ''Neka ulica 5, 1000 Ljubljana'' []
     = Returns (\<lparr>Street = ''Neka ulica 5'', City = ''1000'', Zip = []\<rparr>, None)"
  by code_simp

text \<open>
  Claim C3, as the code has it. The claim says that a country code or an address that is
  empty after trimming fails with MissingCountryCode or MissingAddress. The code checks the
  lengths of both inputs as given and trims afterwards: \<open>ParseAddress\<close> fails with
  MissingCountryCode exactly when the country code has length 0, and with MissingAddress
  exactly when the country code is not empty and the address has length 0; a non-empty
  country code that is empty after trimming fails, for a non-empty address, with
  UnsupportedCountryCode.
\<close>
theorem C3_length_checks:
  "(ParseAddress countryCode address config = Returns (r, Some ErrorMissingCountryCode))
     = (countryCode = [] \<and> r = zeroAddress) \<and>
   (ParseAddress countryCode address config = Returns (r, Some ErrorMissingAddress))
     = (countryCode \<noteq> [] \<and> address = [] \<and> r = zeroAddress) \<and>
   (countryCode \<noteq> [] \<and> address \<noteq> [] \<and> TrimSpace countryCode = [] \<longrightarrow>
      ParseAddress countryCode address config
        = Returns (zeroAddress, Some ErrorUnsupportedCountryCode))"
proof (intro conjI impI)
  show "(ParseAddress countryCode address config = Returns (r, Some ErrorMissingCountryCode))
     = (countryCode = [] \<and> r = zeroAddress)"
    by (auto simp: ParseAddress_def dest: dispatch_errors)
  show "(ParseAddress countryCode address config = Returns (r, Some ErrorMissingAddress))
     = (countryCode \<noteq> [] \<and> address = [] \<and> r = zeroAddress)"
    by (auto simp: ParseAddress_def dest: dispatch_errors)
next
  assume "countryCode \<noteq> [] \<and> address \<noteq> [] \<and> TrimSpace countryCode = []"
  then show "ParseAddress countryCode address config
        = Returns (zeroAddress, Some ErrorUnsupportedCountryCode)"
    by (simp add: ParseAddress_def dispatch_blank)
qed

text \<open>C3 at an empty country code, an empty address and a country code of a tab and a space.\<close>
theorem C3_length_checks_witness:
  "ParseAddress [] ''Hoofdstraat 1'' [] = Returns (zeroAddress, Some ErrorMissingCountryCode) \<and>
   ParseAddress nl [] [] = Returns (zeroAddress, Some ErrorMissingAddress) \<and>
   ParseAddress [CHR 0x09, CHR 0x20] ''Hoofdstraat 1'' []
     = Returns (zeroAddress, Some ErrorUnsupportedCountryCode)"
proof -
  have blank: "TrimSpace [CHR 0x09, CHR 0x20] = []" by code_simp
  have "nl \<noteq> []" by (simp add: nl_def)
  then show ?thesis
    using C3_length_checks [of "[]" "''Hoofdstraat 1''" "[]" zeroAddress]
      C3_length_checks [of nl "[]" "[]" zeroAddress]
      C3_length_checks [of "[CHR 0x09, CHR 0x20]" "''Hoofdstraat 1''" "[]" zeroAddress] blank
    by simp
qed

text \<open>
  C3 as stated fails for inputs of one space: the country code " " is unsupported, not
  missing, and for NL the address " " gives the empty result and no error.
\<close>
theorem C3_blank_inputs_not_missing:
  "ParseAddress '' '' ''Hoofdstraat 1'' []
     = Returns (\<lparr>Street = [], City = [], Zip = []\<rparr>, Some ErrorUnsupportedCountryCode) \<and>
   ParseAddress nl '' '' [] = Returns (\<lparr>Street = [], City = [], Zip = []\<rparr>, None)"
  by code_simp


text \<open>
  Claim C4, as the code has it. The claim says that for SK the three-line address
  "Hlavna 1" (the last a with an acute accent), "Slovensko", "811 01 Bratislava" gives an
  empty Street and takes Zip and City from line 1. An address of three lines has two newlines, and the rule for two newlines
  never looks at the middle line: for SK and every address whose trimmed form is three lines,
  whatever the middle line, Street is line 1 trimmed, and Zip and City are tokens 0 and 1 of
  the space-split last line (City after removing the two district prefixes), both trimmed.
\<close>
theorem C4_sk_three_lines:
  assumes "address \<noteq> []"
    and "TrimSpace address = line1 @ LF # line2 @ LF # line3"
    and "LF \<notin> set line1" and "LF \<notin> set line2" and "LF \<notin> set line3"
    and "Split line3 SP = zipToken # cityToken # rest"
  shows "ParseAddress sk address config
           = Returns (\<lparr>Street = TrimSpace line1,
                       City = TrimSpace (Replace (Replace cityToken mestskaCast [] 1) mc [] 1),
                       Zip = TrimSpace zipToken\<rparr>, None)"
proof -
  have parts: "Split (TrimSpace address) LF = [line1, line2, line3]"
    using assms(2-5) by (simp add: Split_first Split_last)
  have count: "Count (TrimSpace address) LF = 2"
    using assms(2-5) by (simp add: Count_append Count_Cons Count_none)
  have "ParseAddress sk address config = parseSK2 (TrimSpace address)"
    using assms(1) count by (simp add: ParseAddress_def dispatch_sk TrimSpace_codes) (simp add: sk_def)
  also have "\<dots> = finishSK (TrimSpace line1) cityToken zipToken"
    using assms(6) by (simp add: parseSK2_def parts index_def len_def andThen_def)
  finally show ?thesis
    by (simp add: finishSK_def Let_def TrimSpace_idem del: Replace.simps)
qed

text \<open>C4 at the address of the claim: Street is its line 1, Zip "811", City "01".\<close>
theorem C4_sk_three_lines_witness:
  "ParseAddress sk (''Hlavn'' @ [CHR 0xC3, CHR 0xA1] @ '' 1'' @ [LF] @ ''Slovensko'' @ [LF]
      @ ''811 01 Bratislava'') [\<lparr>IgnoreGreek = False\<rparr>]
     = Returns (\<lparr>Street = ''Hlavn'' @ [CHR 0xC3, CHR 0xA1] @ '' 1'', City = ''01'',
                 Zip = ''811''\<rparr>, None)"
proof -
  let ?l1 = "''Hlavn'' @ [CHR 0xC3, CHR 0xA1] @ '' 1''"
  let ?a = "?l1 @ [LF] @ ''Slovensko'' @ [LF] @ ''811 01 Bratislava''"
  have 1: "?a \<noteq> []" by simp
  have 2: "TrimSpace ?a = ?l1 @ LF # ''Slovensko'' @ LF # ''811 01 Bratislava''" by code_simp
  have 3: "LF \<notin> set ?l1" "LF \<notin> set ''Slovensko''" "LF \<notin> set ''811 01 Bratislava''"
    by (simp_all add: LF_def)
  have 4: "Split ''811 01 Bratislava'' SP = ''811'' # ''01'' # [''Bratislava'']" by code_simp
  have 5: "TrimSpace ?l1 = ?l1" "TrimSpace ''811'' = ''811''"
    "TrimSpace (Replace (Replace ''01'' mestskaCast [] 1) mc [] 1) = ''01''"
    by code_simp+
  show ?thesis
    using C4_sk_three_lines [OF 1 2 3 4, of "[\<lparr>IgnoreGreek = False\<rparr>]"] 5 by simp
qed

text \<open>
  C4 as stated fails at its own address: Street is line 1, not empty, and Zip and City come
  from the last line, not from line 1.
\<close>
theorem C4_slovensko_middle_line:
  "ParseAddress sk (''Hlavn'' @ [CHR 0xC3, CHR 0xA1] @ '' 1'' @ [LF] @ ''Slovensko'' @ [LF]
      @ ''811 01 Bratislava'') []
     = Returns (\<lparr>Street = ''Hlavn'' @ [CHR 0xC3, CHR 0xA1] @ '' 1'', City = ''01'',
                 Zip = ''811''\<rparr>, None)"
  by code_simp

text \<open>
  Claim C5, as the code has it. The claim says that for SK a non-empty address whose newline
  count, after trimming, is neither 1 nor 2 fails with UnsupportedCountryCode. Such an address
  leaves the block of SK without a return and reaches the last line of the function: the
  result is the empty address and no error.
\<close>
theorem C5_sk_other_shapes:
  "TrimSpace countryCode = sk \<Longrightarrow> address \<noteq> [] \<Longrightarrow>
   Count (TrimSpace address) LF \<noteq> 1 \<Longrightarrow> Count (TrimSpace address) LF \<noteq> 2 \<Longrightarrow>
   ParseAddress countryCode address config = Returns (zeroAddress, None)"
  using TrimSpace_Nil by (auto simp: ParseAddress_def dispatch_sk sk_def)

text \<open>C5 at an address of SK with three newlines.\<close>
theorem C5_sk_other_shapes_witness:
  "ParseAddress sk (''Hlavna 1'' @ [LF] @ ''Stare Mesto'' @ [LF] @ ''Slovensko'' @ [LF]
      @ ''81101 Bratislava'') [] = Returns (zeroAddress, None)"
proof -
  let ?a = "''Hlavna 1'' @ [LF] @ ''Stare Mesto'' @ [LF] @ ''Slovensko'' @ [LF] @ ''81101 Bratislava''"
  have "Count (TrimSpace ?a) LF = 3" by code_simp
  then show ?thesis
    using C5_sk_other_shapes [of sk ?a "[]"] by (simp add: TrimSpace_codes)
qed

text \<open>C5 as stated fails at an address of SK with no newline: there is no error.\<close>
theorem C5_sk_no_newline:
  "ParseAddress sk ''Hlavna 1 81101 Bratislava'' []
     = Returns (\<lparr>Street = [], City = [], Zip = []\<rparr>, None)"
  by code_simp

text \<open>
  Claim C6: for NL and the address "Hoofdstraat 1", newline, "1234 AB Amsterdam",
  \<open>ParseAddress\<close> returns Street "Hoofdstraat 1", Zip "1234" and City "AB", with no error;
  "Amsterdam", the text after the second space of line 2, is dropped.
\<close>
theorem C6_nl_example:
  "ParseAddress nl (''Hoofdstraat 1'' @ [LF] @ ''1234 AB Amsterdam'') []
     = Returns (\<lparr>Street = ''Hoofdstraat 1'', City = ''AB'', Zip = ''1234''\<rparr>, None)"
  by code_simp

text \<open>
  Claim C7: for the country code CZ (after trimming) and every non-empty address whose
  newline count, after trimming, is neither 1 nor 2, \<open>ParseAddress\<close> fails with
  InvalidOption; and whenever \<open>ParseAddress\<close> fails with InvalidOption, the trimmed country
  code is CZ.
\<close>
theorem C7_cz_invalid_option:
  "(TrimSpace countryCode = cz \<and> address \<noteq> [] \<and>
    Count (TrimSpace address) LF \<noteq> 1 \<and> Count (TrimSpace address) LF \<noteq> 2 \<longrightarrow>
      ParseAddress countryCode address config = Returns (zeroAddress, Some ErrorInvalidOption)) \<and>
   (ParseAddress countryCode address config = Returns (r, Some ErrorInvalidOption) \<longrightarrow>
      TrimSpace countryCode = cz)"
proof (intro conjI impI)
  assume "TrimSpace countryCode = cz \<and> address \<noteq> [] \<and>
    Count (TrimSpace address) LF \<noteq> 1 \<and> Count (TrimSpace address) LF \<noteq> 2"
  then show "ParseAddress countryCode address config
      = Returns (zeroAddress, Some ErrorInvalidOption)"
    using TrimSpace_Nil by (auto simp: ParseAddress_def dispatch_cz cz_def)
next
  assume "ParseAddress countryCode address config = Returns (r, Some ErrorInvalidOption)"
  then show "TrimSpace countryCode = cz"
    by (auto simp: ParseAddress_def split: if_splits dest: dispatch_errors)
qed

text \<open>C7 at an address of CZ with no newline.\<close>
theorem C7_cz_invalid_option_witness:
  "ParseAddress cz ''Vodickova 1 11000 Praha 1'' [] = Returns (zeroAddress, Some ErrorInvalidOption)
   \<and> TrimSpace cz = cz"
proof -
  have "Count (TrimSpace ''Vodickova 1 11000 Praha 1'') LF = 0" by code_simp
  then have "ParseAddress cz ''Vodickova 1 11000 Praha 1'' []
      = Returns (zeroAddress, Some ErrorInvalidOption)"
    using C7_cz_invalid_option [of cz "''Vodickova 1 11000 Praha 1''" "[]" zeroAddress]
    by (simp add: TrimSpace_codes)
  then show ?thesis
    using C7_cz_invalid_option [of cz "''Vodickova 1 11000 Praha 1''" "[]" zeroAddress]
    by simp
qed

text \<open>
  Claim C8, as the code has it. The claim says that trimming the address beforehand never
  changes the outcome. The length check of the address comes before the trimming, so a
  non-empty address of white space only passes it, while its trimmed form, the empty string,
  fails with MissingAddress. The outcome of \<open>ParseAddress\<close> on the trimmed address equals the
  outcome on the address as given exactly when the country code is empty, or the address is
  empty, or the address is not white space only.
\<close>
theorem C8_trim_address:
  "(ParseAddress countryCode (TrimSpace address) config = ParseAddress countryCode address config)
     = (countryCode = [] \<or> address = [] \<or> TrimSpace address \<noteq> [])"
proof (cases "countryCode = [] \<or> address = []")
  case True
  then show ?thesis by (auto simp: ParseAddress_def TrimSpace_Nil)
next
  case False
  show ?thesis
  proof (cases "TrimSpace address = []")
    case True
    have "dispatch countryCode address \<noteq> Returns (zeroAddress, Some ErrorMissingAddress)"
      using dispatch_errors by fastforce
    with True False show ?thesis by (simp add: ParseAddress_def)
  next
    case nonblank: False
    with False show ?thesis by (simp add: ParseAddress_def dispatch_TrimSpace)
  qed
qed

text \<open>C8 at an address of NL with white space on both sides.\<close>
theorem C8_trim_address_witness:
  "ParseAddress nl (TrimSpace ([CHR 0x20, CHR 0x09] @ ''Hoofdstraat 1'' @ [LF]
      @ ''1234 AB Amsterdam'' @ [LF, CHR 0x20])) []
     = ParseAddress nl ([CHR 0x20, CHR 0x09] @ ''Hoofdstraat 1'' @ [LF] @ ''1234 AB Amsterdam''
      @ [LF, CHR 0x20]) []"
proof -
  let ?a = "[CHR 0x20, CHR 0x09] @ ''Hoofdstraat 1'' @ [LF] @ ''1234 AB Amsterdam'' @ [LF, CHR 0x20]"
  have "TrimSpace ?a = ''Hoofdstraat 1'' @ [LF] @ ''1234 AB Amsterdam''" by code_simp
  then have "TrimSpace ?a \<noteq> []" by simp
  then show ?thesis using C8_trim_address [of nl ?a "[]"] by blast
qed

text \<open>C8 as stated fails for NL at the address of one space.\<close>
theorem C8_blank_address:
  "ParseAddress nl (TrimSpace '' '') [] \<noteq> ParseAddress nl '' '' []"
proof -
  have "ParseAddress nl (TrimSpace '' '') [] = Returns (zeroAddress, Some ErrorMissingAddress)"
    by code_simp
  moreover have "ParseAddress nl '' '' [] = Returns (zeroAddress, None)"
    by code_simp
  ultimately show ?thesis by simp
qed

text \<open>
  Claim C9: for every country code and address, \<open>ParseAddress\<close> gives the same outcome for
  any two values of the configuration argument, whether it is left out (the empty list) or
  has \<open>IgnoreGreek\<close> true or false.
\<close>
theorem C9_config_ignored:
  "ParseAddress countryCode address config1 = ParseAddress countryCode address config2"
  by (simp add: ParseAddress_def)

text \<open>
  Claim C10: for some supported country codes and non-empty addresses \<open>ParseAddress\<close> is
  stopped by a bounds error of the runtime instead of returning. For NL and for SK with one
  newline, and for SI with no newline, a line without a space makes \<open>locationParts[1]\<close> an
  index out of range; for CZ a last line of one token makes the lower bound of
  \<open>lastParts[len(lastParts)-2:len(lastParts)-1]\<close> negative, which the runtime reports as
  slice bounds out of range.
\<close>
theorem C10_panics:
  "Contains SupportedCountryCodes nl \<and>
   ParseAddress nl (''Hoofdstraat'' @ [LF] @ ''Amsterdam'') [] = Panics IndexOutOfRange \<and>
   Contains SupportedCountryCodes sk \<and>
   ParseAddress sk (''Hlavna'' @ [LF] @ ''Bratislava'') [] = Panics IndexOutOfRange \<and>
   Contains SupportedCountryCodes si \<and>
   ParseAddress si ''Ljubljana'' [] = Panics IndexOutOfRange \<and>
   Contains SupportedCountryCodes cz \<and>
   ParseAddress cz (''Vodickova'' @ [LF] @ ''Praha'') [] = Panics SliceBoundsOutOfRange"
  by code_simp

end
